theory Spec2Isabelle
  imports Main "HOL-Library.AList" "HOL-Library.Sublist"
begin

section \<open>Python values and the library primitives the server relies on\<close>

text \<open>
  The task manager of \<^verbatim>\<open>mcp_server.py\<close> keeps its data in two module globals, the dictionary
  \<^verbatim>\<open>tasks\<close> and the integer \<^verbatim>\<open>task_counter\<close>, and exposes six handlers. The handlers
  are embedded as functions that take the globals as a \<open>state\<close> and hand back the state they
  leave behind, together with either the value returned or the exception raised.
  \<^verbatim>\<open>mcp_server_http.py\<close> holds the same six handlers, statement for statement, behind another
  transport; what is proved here holds for both.

  Conventions of the model:
  \<^item> a Python \<^verbatim>\<open>str\<close> is a \<open>string\<close>; a \<open>char\<close> stands for the code point of the same
    number, so the strings of the model are those with code points below 256;
  \<^item> a Python \<^verbatim>\<open>int\<close> is an \<open>int\<close>; the interpreter's optional cap on the length of
    decimal conversions is not modelled;
  \<^item> the values found in an argument dictionary are the JSON scalars \<^verbatim>\<open>None\<close>,
    booleans, integers and strings; fractional numbers, arrays and objects are outside the model;
  \<^item> a \<^verbatim>\<open>dict\<close> is an association list in insertion order, read with \<open>map_of\<close>;
  \<^item> \<^verbatim>\<open>datetime.now().isoformat()\<close> is an input \<open>now\<close> of every handler that reads the clock
    (each such handler reads it once per call);
  \<^item> \<^verbatim>\<open>json.dumps(v, indent=2)\<close> is kept symbolic: the piece \<open>Dumps j\<close> of a text stands for
    the characters that the serialiser prints for the JSON value \<open>j\<close>.
\<close>

datatype pyval = PNone | PBool bool | PInt int | PStr string

text \<open>
  The exceptions that can leave a handler. \<open>InvalidLiteral s\<close> is the \<^verbatim>\<open>ValueError\<close> that
  \<^verbatim>\<open>int(s)\<close> raises for a string it cannot read; \<open>ValueError m\<close> is a \<^verbatim>\<open>ValueError\<close> raised
  by the server itself with message \<open>m\<close>.
\<close>

datatype pyerr =
    KeyError string
  | TypeError
  | AttributeError
  | IndexError
  | InvalidLiteral string
  | ValueError string

type_synonym pydict = "(string \<times> pyval) list"

subsection \<open>\<^verbatim>\<open>str(n)\<close> for integers\<close>

fun str_nat :: "nat \<Rightarrow> string" where
  "str_nat n =
     (if n < 10 then [''0123456789'' ! n]
      else str_nat (n div 10) @ [''0123456789'' ! (n mod 10)])"

declare str_nat.simps [simp del]

definition str_int :: "int \<Rightarrow> string" where
  "str_int i = (if i < 0 then CHR ''-'' # str_nat (nat (- i)) else str_nat (nat i))"

text \<open>What an f-string prints for a value: \<^verbatim>\<open>str(v)\<close>.\<close>

fun py_str :: "pyval \<Rightarrow> string" where
  "py_str PNone = ''None''"
| "py_str (PBool b) = (if b then ''True'' else ''False'')"
| "py_str (PInt i) = str_int i"
| "py_str (PStr s) = s"

subsection \<open>\<^verbatim>\<open>int(v)\<close>\<close>

text \<open>
  \<^verbatim>\<open>int\<close> on a string strips white space at both ends, reads an optional sign and then
  decimal digits, where a single underscore may stand between two digits. The white space it
  strips is tab, line feed, vertical tab, form feed, carriage return, space, and among the
  code points above 127 the next-line and no-break-space characters.
\<close>

definition is_space :: "char \<Rightarrow> bool" where
  "is_space c = ((of_char c :: nat) \<in> {9, 10, 11, 12, 13, 32, 133, 160})"

definition is_digit :: "char \<Rightarrow> bool" where
  "is_digit c = (48 \<le> (of_char c :: nat) \<and> (of_char c :: nat) \<le> 57)"

definition digit_val :: "char \<Rightarrow> nat" where
  "digit_val c = of_char c - 48"

definition strip :: "string \<Rightarrow> string" where
  "strip s = rev (dropWhile is_space (rev (dropWhile is_space s)))"

fun parse_digits :: "nat \<Rightarrow> string \<Rightarrow> nat option" where
  "parse_digits acc [] = Some acc"
| "parse_digits acc [c] = (if is_digit c then Some (10 * acc + digit_val c) else None)"
| "parse_digits acc (c # d # cs) =
     (if is_digit c then parse_digits (10 * acc + digit_val c) (d # cs)
      else if c = CHR ''_'' \<and> is_digit d then parse_digits (10 * acc + digit_val d) cs
      else None)"

definition parse_nat :: "string \<Rightarrow> nat option" where
  "parse_nat s =
     (case s of
        [] \<Rightarrow> None
      | c # cs \<Rightarrow> if is_digit c then parse_digits (digit_val c) cs else None)"

definition int_of_str :: "string \<Rightarrow> int option" where
  "int_of_str s =
     (case strip s of
        [] \<Rightarrow> None
      | c # cs \<Rightarrow>
          if c = CHR ''-'' then map_option (\<lambda>n. - int n) (parse_nat cs)
          else if c = CHR ''+'' then map_option int (parse_nat cs)
          else map_option int (parse_nat (c # cs)))"

fun py_int :: "pyval \<Rightarrow> pyerr + int" where
  "py_int PNone = Inl TypeError"
| "py_int (PBool b) = Inr (if b then 1 else 0)"
| "py_int (PInt i) = Inr i"
| "py_int (PStr s) = (case int_of_str s of None \<Rightarrow> Inl (InvalidLiteral s) | Some i \<Rightarrow> Inr i)"

subsection \<open>\<^verbatim>\<open>str.lower\<close>, \<^verbatim>\<open>in\<close>, \<^verbatim>\<open>str.startswith\<close>, \<^verbatim>\<open>str.split\<close>\<close>

text \<open>
  Below code point 256 the letters with a distinct lower-case form are \<^verbatim>\<open>A\<close> to \<^verbatim>\<open>Z\<close>
  and the accented capitals 192 to 222 without the multiplication sign 215; each is 32 below
  its lower-case form. From code point 256 on, \<^verbatim>\<open>str.lower\<close> is no longer a map of single
  characters (it can look at the neighbours and change the length); such texts are outside
  the model.
\<close>

definition char_lower :: "char \<Rightarrow> char" where
  "char_lower c =
     (let n = (of_char c :: nat)
      in if (65 \<le> n \<and> n \<le> 90) \<or> (192 \<le> n \<and> n \<le> 222 \<and> n \<noteq> 215)
         then char_of (n + 32) else c)"

definition py_lower :: "string \<Rightarrow> string" where
  "py_lower s = map char_lower s"

text \<open>\<^verbatim>\<open>x in s\<close> on strings: \<open>x\<close> occurs in \<open>s\<close> as a contiguous run.\<close>

fun py_in :: "string \<Rightarrow> string \<Rightarrow> bool" where
  "py_in x [] = (x = [])"
| "py_in x (c # cs) = (prefix x (c # cs) \<or> py_in x cs)"

definition startswith :: "string \<Rightarrow> string \<Rightarrow> bool" where
  "startswith s p = prefix p s"

text \<open>
  \<^verbatim>\<open>s.split("//")\<close>: the pieces between the occurrences of the separator, found from left
  to right without overlap. \<open>acc\<close> is the piece being read.
\<close>

fun split_slashes :: "string \<Rightarrow> string \<Rightarrow> string list" where
  "split_slashes acc [] = [acc]"
| "split_slashes acc [c] = [acc @ [c]]"
| "split_slashes acc (c # d # cs) =
     (if c = CHR ''/'' \<and> d = CHR ''/'' then acc # split_slashes [] cs
      else split_slashes (acc @ [c]) (d # cs))"

text \<open>\<^verbatim>\<open>xs[i]\<close> for an index that is not negative.\<close>

definition py_nth :: "'a list \<Rightarrow> nat \<Rightarrow> pyerr + 'a" where
  "py_nth xs i = (if i < length xs then Inr (xs ! i) else Inl IndexError)"

section \<open>The data model\<close>

datatype json =
    JNull
  | JBool bool
  | JInt int
  | JStr string
  | JArr "json list"
  | JObj "(string \<times> json) list"

fun json_of :: "pyval \<Rightarrow> json" where
  "json_of PNone = JNull"
| "json_of (PBool b) = JBool b"
| "json_of (PInt i) = JInt i"
| "json_of (PStr s) = JStr s"

text \<open>
  A task is the dictionary that \<^verbatim>\<open>create_task\<close> builds. Its keys are fixed, except for
  \<^verbatim>\<open>completed_at\<close>, which \<^verbatim>\<open>complete_task\<close> adds: the field is \<open>None\<close> while the key is
  absent. The field \<open>id'\<close> is the key \<^verbatim>\<open>id\<close>.
\<close>

record task =
  id' :: int
  title :: pyval
  description :: pyval
  priority :: pyval
  completed :: bool
  created_at :: string
  completed_at :: "string option"

text \<open>The module globals \<^verbatim>\<open>tasks\<close> and \<^verbatim>\<open>task_counter\<close>.\<close>

record state =
  tasks :: "(int \<times> task) list"
  task_counter :: int

definition init :: state where
  "init = \<lparr>tasks = [], task_counter = 0\<rparr>"

text \<open>The JSON object that the serialiser sees for a task, its keys in insertion order.\<close>

definition task_json :: "task \<Rightarrow> json" where
  "task_json t =
     JObj ([(''id'', JInt (id' t)),
            (''title'', json_of (title t)),
            (''description'', json_of (description t)),
            (''priority'', json_of (priority t)),
            (''completed'', JBool (completed t)),
            (''created_at'', JStr (created_at t))]
           @ (case completed_at t of None \<Rightarrow> [] | Some c \<Rightarrow> [(''completed_at'', JStr c)]))"

datatype piece = Lit string | Dumps json

type_synonym pytext = "piece list"

text \<open>\<^verbatim>\<open>TextContent(type="text", text=...)\<close>.\<close>

datatype TextContent = TextContent pytext

section \<open>Tools\<close>

text \<open>The loop of \<^verbatim>\<open>search_tasks\<close> over \<^verbatim>\<open>tasks.items()\<close>; \<open>results\<close> is the list built so far.\<close>

fun search_loop :: "string \<Rightarrow> (int \<times> task) list \<Rightarrow> task list \<Rightarrow> pyerr + task list" where
  "search_loop keyword [] results = Inr results"
| "search_loop keyword ((task_id, t) # rest) results =
     (case title t of
        PStr ttl \<Rightarrow>
          if py_in keyword (py_lower ttl) then search_loop keyword rest (results @ [t])
          else (case description t of
                  PStr d \<Rightarrow>
                    if py_in keyword (py_lower d) then search_loop keyword rest (results @ [t])
                    else search_loop keyword rest results
                | _ \<Rightarrow> Inl AttributeError)
      | _ \<Rightarrow> Inl AttributeError)"

definition call_tool ::
  "string \<Rightarrow> pydict \<Rightarrow> string \<Rightarrow> state \<Rightarrow> (pyerr + TextContent list) \<times> state" where
  "call_tool name arguments now s =
     (if name = ''create_task'' then
        let s1 = s\<lparr>task_counter := task_counter s + 1\<rparr>;
            task_id = task_counter s1
        in (case map_of arguments ''title'' of
              None \<Rightarrow> (Inl (KeyError ''title''), s1)
            | Some ttl \<Rightarrow>
                let t = \<lparr>id' = task_id,
                         title = ttl,
                         description = (case map_of arguments ''description'' of
                                          None \<Rightarrow> PStr '''' | Some d \<Rightarrow> d),
                         priority = (case map_of arguments ''priority'' of
                                       None \<Rightarrow> PStr ''medium'' | Some p \<Rightarrow> p),
                         completed = False,
                         created_at = now,
                         completed_at = None\<rparr>;
                    s2 = s1\<lparr>tasks := AList.update task_id t (tasks s1)\<rparr>
                in (Inr [TextContent [Lit ''Task created successfully!\<newline>\<newline>'',
                                      Dumps (task_json t)]], s2))
      else if name = ''complete_task'' then
        (case map_of arguments ''task_id'' of
           None \<Rightarrow> (Inl (KeyError ''task_id''), s)
         | Some v \<Rightarrow>
             (case py_int v of
                Inl e \<Rightarrow> (Inl e, s)
              | Inr task_id \<Rightarrow>
                  (case map_of (tasks s) task_id of
                     None \<Rightarrow>
                       (Inr [TextContent [Lit (''Task '' @ str_int task_id @ '' not found'')]], s)
                   | Some t \<Rightarrow>
                       let t' = t\<lparr>completed := True, completed_at := Some now\<rparr>;
                           s' = s\<lparr>tasks := AList.update task_id t' (tasks s)\<rparr>
                       in (Inr [TextContent
                                  [Lit (''Task '' @ str_int task_id
                                        @ '' marked as completed!\<newline>\<newline>''),
                                   Dumps (task_json t')]], s'))))
      else if name = ''delete_task'' then
        (case map_of arguments ''task_id'' of
           None \<Rightarrow> (Inl (KeyError ''task_id''), s)
         | Some v \<Rightarrow>
             (case py_int v of
                Inl e \<Rightarrow> (Inl e, s)
              | Inr task_id \<Rightarrow>
                  (case map_of (tasks s) task_id of
                     None \<Rightarrow>
                       (Inr [TextContent [Lit (''Task '' @ str_int task_id @ '' not found'')]], s)
                   | Some deleted_task \<Rightarrow>
                       let s' = s\<lparr>tasks := AList.delete task_id (tasks s)\<rparr>
                       in (Inr [TextContent
                                  [Lit (''Task '' @ str_int task_id
                                        @ '' deleted successfully!\<newline>\<newline>''),
                                   Dumps (task_json deleted_task)]], s'))))
      else if name = ''search_tasks'' then
        (case map_of arguments ''keyword'' of
           None \<Rightarrow> (Inl (KeyError ''keyword''), s)
         | Some (PStr k) \<Rightarrow>
             let keyword = py_lower k
             in (case search_loop keyword (tasks s) [] of
                   Inl e \<Rightarrow> (Inl e, s)
                 | Inr results \<Rightarrow>
                     (Inr [TextContent
                            [Lit (''Found '' @ str_int (int (length results))
                                  @ '' task(s) matching '' @ [CHR 0x27] @ keyword
                                  @ [CHR 0x27] @ '':\<newline>\<newline>''),
                             Dumps (JArr (map task_json results))]], s))
         | Some _ \<Rightarrow> (Inl AttributeError, s))
      else (Inl (ValueError (''Unknown tool: '' @ name)), s))"

text \<open>
  \<^verbatim>\<open>list_tools\<close> returns the same four declarations on every call. Each is a name, a
  description and the input schema as a JSON value.
\<close>

datatype Tool = Tool string string json

definition string_property :: "string \<Rightarrow> json" where
  "string_property d = JObj [(''type'', JStr ''string''), (''description'', JStr d)]"

definition number_property :: "string \<Rightarrow> json" where
  "number_property d = JObj [(''type'', JStr ''number''), (''description'', JStr d)]"

definition object_schema :: "(string \<times> json) list \<Rightarrow> string list \<Rightarrow> json" where
  "object_schema props req =
     JObj [(''type'', JStr ''object''),
           (''properties'', JObj props),
           (''required'', JArr (map JStr req))]"

definition list_tools :: "state \<Rightarrow> Tool list \<times> state" where
  "list_tools s =
     ([Tool ''create_task'' ''Create a new task with a title and optional description''
         (object_schema
            [(''title'', string_property ''The title of the task''),
             (''description'', string_property ''Optional description of the task''),
             (''priority'',
                JObj [(''type'', JStr ''string''),
                      (''enum'', JArr [JStr ''low'', JStr ''medium'', JStr ''high'']),
                      (''description'', JStr ''Priority level of the task'')])]
            [''title'']),
       Tool ''complete_task'' ''Mark a task as completed''
         (object_schema [(''task_id'', number_property ''The ID of the task to complete'')]
            [''task_id'']),
       Tool ''delete_task'' ''Delete a task permanently''
         (object_schema [(''task_id'', number_property ''The ID of the task to delete'')]
            [''task_id'']),
       Tool ''search_tasks'' ''Search for tasks by keyword in title or description''
         (object_schema [(''keyword'', string_property ''Keyword to search for'')]
            [''keyword''])],
      s)"

section \<open>Resources\<close>

text \<open>\<^verbatim>\<open>Resource(uri, name, mimeType, description)\<close>.\<close>

datatype Resource = Resource string string string string

definition list_resources :: "state \<Rightarrow> Resource list \<times> state" where
  "list_resources s =
     (Resource ''task://all'' ''All Tasks'' ''application/json''
        ''Complete list of all tasks in the system''
      # map (\<lambda>(task_id, t).
               Resource (''task://'' @ str_int task_id) (''Task '' @ str_int task_id)
                 ''application/json'' (''Details for task: '' @ py_str (title t)))
          (tasks s),
      s)"

text \<open>
  The serialiser prints the integer keys of \<^verbatim>\<open>tasks\<close> as strings. The identifier of a task
  is element 1 of \<^verbatim>\<open>uri.split("//")\<close>.
\<close>

definition tasks_json :: "(int \<times> task) list \<Rightarrow> json" where
  "tasks_json ts = JObj (map (\<lambda>(task_id, t). (str_int task_id, task_json t)) ts)"

definition read_resource :: "string \<Rightarrow> string \<Rightarrow> state \<Rightarrow> (pyerr + pytext) \<times> state" where
  "read_resource uri now s =
     (if uri = ''task://all'' then
        (Inr [Dumps (JObj [(''tasks'', tasks_json (tasks s)),
                           (''total_count'', JInt (int (length (tasks s)))),
                           (''timestamp'', JStr now)])], s)
      else if startswith uri ''task://'' then
        (case py_nth (split_slashes [] uri) 1 of
           Inl e \<Rightarrow> (Inl e, s)
         | Inr segment \<Rightarrow>
             (case py_int (PStr segment) of
                Inl e \<Rightarrow> (Inl e, s)
              | Inr task_id \<Rightarrow>
                  (case map_of (tasks s) task_id of
                     Some t \<Rightarrow> (Inr [Dumps (task_json t)], s)
                   | None \<Rightarrow>
                       (Inl (ValueError (''Task '' @ str_int task_id @ '' not found'')), s))))
      else (Inl (ValueError (''Unknown resource URI: '' @ uri)), s))"

section \<open>Prompts\<close>

text \<open>\<^verbatim>\<open>Prompt(name, description, arguments)\<close>, an argument being name, description, required.\<close>

datatype PromptArgument = PromptArgument string string bool

datatype Prompt = Prompt string string "PromptArgument list"

definition list_prompts :: "state \<Rightarrow> Prompt list \<times> state" where
  "list_prompts s =
     ([Prompt ''daily_summary'' ''Generate a daily summary of all tasks''
         [PromptArgument ''include_completed'' ''Whether to include completed tasks'' False],
       Prompt ''task_priorities'' ''Analyze and suggest task priorities'' [],
       Prompt ''create_task_wizard'' ''Interactive wizard to create a well-structured task''
         [PromptArgument ''task_type'' ''Type of task (work, personal, urgent)'' True]],
      s)"

text \<open>\<^verbatim>\<open>PromptMessage(role, content)\<close> and \<^verbatim>\<open>GetPromptResult(description, messages)\<close>.\<close>

datatype PromptMessage = PromptMessage string TextContent

datatype GetPromptResult = GetPromptResult string "PromptMessage list"

text \<open>
  The flag of \<^verbatim>\<open>daily_summary\<close>:
  \<^verbatim>\<open>arguments.get("include_completed", "true") == "true" if arguments else True\<close>.
  An absent dictionary and an empty one are both false as a condition.
\<close>

definition include_completed :: "pydict option \<Rightarrow> bool" where
  "include_completed arguments =
     (case arguments of
        None \<Rightarrow> True
      | Some d \<Rightarrow>
          if d = [] then True
          else (case map_of d ''include_completed'' of None \<Rightarrow> PStr ''true'' | Some v \<Rightarrow> v)
               = PStr ''true'')"

text \<open>The loop of \<^verbatim>\<open>daily_summary\<close> over \<^verbatim>\<open>tasks.items()\<close>.\<close>

fun summary_loop :: "bool \<Rightarrow> (int \<times> task) list \<Rightarrow> task list \<Rightarrow> task list" where
  "summary_loop inc [] task_list = task_list"
| "summary_loop inc ((task_id, t) # rest) task_list =
     (if \<not> inc \<and> completed t then summary_loop inc rest task_list
      else summary_loop inc rest (task_list @ [t]))"

definition daily_summary_tasks :: "pydict option \<Rightarrow> state \<Rightarrow> task list" where
  "daily_summary_tasks arguments s = summary_loop (include_completed arguments) (tasks s) []"

definition task_type_of :: "pydict option \<Rightarrow> pyval" where
  "task_type_of arguments =
     (case arguments of
        None \<Rightarrow> PStr ''general''
      | Some d \<Rightarrow>
          if d = [] then PStr ''general''
          else (case map_of d ''task_type'' of None \<Rightarrow> PStr ''general'' | Some v \<Rightarrow> v))"

definition user_message :: "pytext \<Rightarrow> PromptMessage list" where
  "user_message prompt_text = [PromptMessage ''user'' (TextContent prompt_text)]"

definition get_prompt ::
  "string \<Rightarrow> pydict option \<Rightarrow> state \<Rightarrow> (pyerr + GetPromptResult) \<times> state" where
  "get_prompt name arguments s =
     (if name = ''daily_summary'' then
        let task_list = daily_summary_tasks arguments s
        in (Inr (GetPromptResult ''Daily task summary prompt''
                   (user_message
                      [Lit (''Please provide a daily summary of tasks.\<newline>\<newline>Current tasks (''
                            @ str_int (int (length task_list)) @ '' total):\<newline>''),
                       Dumps (JArr (map task_json task_list)),
                       Lit (''\<newline>\<newline>Please:\<newline>1. Summarize the overall status\<newline>''
                            @ ''2. Highlight high-priority tasks\<newline>''
                            @ ''3. Identify any overdue or urgent items\<newline>''
                            @ ''4. Suggest next actions'')])), s)
      else if name = ''task_priorities'' then
        (Inr (GetPromptResult ''Task priority analysis prompt''
                (user_message
                   [Lit (''Analyze the following tasks and provide priority ''
                         @ ''recommendations:\<newline>\<newline>''),
                    Dumps (JArr (map (\<lambda>(task_id, t). task_json t) (tasks s))),
                    Lit (''\<newline>\<newline>Please:\<newline>1. Review each task'' @ [CHR 0x27]
                         @ ''s current priority\<newline>''
                         @ ''2. Suggest any priority adjustments based on urgency and ''
                         @ ''importance\<newline>''
                         @ ''3. Recommend a focus order for today\<newline>''
                         @ ''4. Identify tasks that could be delegated or eliminated'')])), s)
      else if name = ''create_task_wizard'' then
        let task_type = py_str (task_type_of arguments)
        in (Inr (GetPromptResult (''Interactive wizard for creating a '' @ task_type @ '' task'')
                   (user_message
                      [Lit (''Let'' @ [CHR 0x27] @ ''s create a well-structured '' @ task_type
                            @ '' task together.\<newline>\<newline>''
                            @ ''Please help me create a task by asking about:\<newline>''
                            @ ''1. What is the main objective or title?\<newline>''
                            @ ''2. What are the specific details or requirements?\<newline>''
                            @ ''3. What priority level is appropriate (low/medium/high)?\<newline>''
                            @ ''4. Are there any dependencies or blockers?\<newline>\<newline>''
                            @ ''After gathering this information, use the create_task tool ''
                            @ ''to add it to the system.'')])), s)
      else (Inl (ValueError (''Unknown prompt: '' @ name)), s))"

section \<open>Sequences of tool calls\<close>

text \<open>A dispatch of \<^verbatim>\<open>call_tool\<close>: the tool name, the argument dictionary, the clock reading.\<close>

datatype call = Call string pydict string

fun step :: "call \<Rightarrow> state \<Rightarrow> state" where
  "step (Call name arguments now) s = snd (call_tool name arguments now s)"

fun run :: "call list \<Rightarrow> state \<Rightarrow> state" where
  "run [] s = s"
| "run (c # cs) s = run cs (step c s)"

text \<open>
  The identifiers that a call hands out: the keys that \<^verbatim>\<open>tasks\<close> holds after the call and did
  not hold before it. \<open>ids_assigned\<close> lists them for a sequence of calls, in the order of the
  calls.
\<close>

definition new_ids :: "state \<Rightarrow> state \<Rightarrow> int list" where
  "new_ids s s' = filter (\<lambda>k. k \<notin> set (map fst (tasks s))) (map fst (tasks s'))"

fun ids_assigned :: "call list \<Rightarrow> state \<Rightarrow> int list" where
  "ids_assigned [] s = []"
| "ids_assigned (c # cs) s = new_ids s (step c s) @ ids_assigned cs (step c s)"

text \<open>The dictionary that \<^verbatim>\<open>create_task\<close> builds for the identifier \<open>task_id\<close> and title \<open>ttl\<close>.\<close>

definition new_task :: "int \<Rightarrow> pyval \<Rightarrow> pydict \<Rightarrow> string \<Rightarrow> task" where
  "new_task task_id ttl arguments now =
     \<lparr>id' = task_id, title = ttl,
      description = (case map_of arguments ''description'' of None \<Rightarrow> PStr '''' | Some d \<Rightarrow> d),
      priority = (case map_of arguments ''priority'' of None \<Rightarrow> PStr ''medium'' | Some p \<Rightarrow> p),
      completed = False, created_at = now, completed_at = None\<rparr>"

text \<open>
  The test \<^verbatim>\<open>keyword in v.lower()\<close> of \<^verbatim>\<open>search_tasks\<close> on a field that holds a string.
\<close>

definition field_matches :: "string \<Rightarrow> pyval \<Rightarrow> bool" where
  "field_matches keyword v = (case v of PStr a \<Rightarrow> py_in keyword (py_lower a) | _ \<Rightarrow> False)"

text \<open>Which calls are \<^verbatim>\<open>create_task\<close> calls, and which calls carry the key \<^verbatim>\<open>title\<close>.\<close>

fun is_create :: "call \<Rightarrow> bool" where
  "is_create (Call name arguments now) = (name = ''create_task'')"

fun has_title :: "call \<Rightarrow> bool" where
  "has_title (Call name arguments now) = (map_of arguments ''title'' \<noteq> None)"

text \<open>No key of \<^verbatim>\<open>tasks\<close> lies above the counter.\<close>

definition ids_bounded :: "state \<Rightarrow> bool" where
  "ids_bounded s = (\<forall>k \<in> fst ` set (tasks s). k \<le> task_counter s)"

text \<open>
  Following the spec's words for \<^verbatim>\<open>search\<close>, a case-insensitive substring match against the
  title or the description: two characters are the same letter when they are equal or one is
  the capital of the other (the capitals below code point 256 are \<^verbatim>\<open>A\<close> to \<^verbatim>\<open>Z\<close> and the
  accented capitals 192 to 222 without 215, each 32 below its small letter); a text contains
  the keyword ignoring case when some run of the text is the keyword letter for letter.
\<close>

definition is_capital :: "char \<Rightarrow> bool" where
  "is_capital c =
     ((65 \<le> (of_char c :: nat) \<and> (of_char c :: nat) \<le> 90)
      \<or> (192 \<le> (of_char c :: nat) \<and> (of_char c :: nat) \<le> 222 \<and> (of_char c :: nat) \<noteq> 215))"

definition same_letter :: "char \<Rightarrow> char \<Rightarrow> bool" where
  "same_letter c d =
     (c = d
      \<or> (is_capital c \<and> (of_char d :: nat) = of_char c + 32)
      \<or> (is_capital d \<and> (of_char c :: nat) = of_char d + 32))"

definition contains_ignoring_case :: "string \<Rightarrow> pyval \<Rightarrow> bool" where
  "contains_ignoring_case k v =
     (case v of
        PStr a \<Rightarrow> (\<exists>ps u ss. a = ps @ u @ ss \<and> list_all2 same_letter u k)
      | _ \<Rightarrow> False)"

definition matching_tasks :: "string \<Rightarrow> (int \<times> task) list \<Rightarrow> task list" where
  "matching_tasks k ts =
     filter (\<lambda>t. contains_ignoring_case k (title t) \<or> contains_ignoring_case k (description t))
       (map snd ts)"

section \<open>Facts about the primitives\<close>

lemma py_in_iff: "py_in x s \<longleftrightarrow> (\<exists>ps ss. s = ps @ x @ ss)"
proof (induction s)
  case Nil
  then show ?case by auto
next
  case (Cons c cs)
  show ?case
  proof
    assume "py_in x (c # cs)"
    then consider "prefix x (c # cs)" | "py_in x cs" by auto
    then show "\<exists>ps ss. c # cs = ps @ x @ ss"
    proof cases
      case 1
      then obtain ss where "c # cs = x @ ss" by (auto simp: prefix_def)
      then have "c # cs = [] @ x @ ss" by simp
      then show ?thesis by blast
    next
      case 2
      with Cons.IH obtain ps ss where "cs = ps @ x @ ss" by blast
      then have "c # cs = (c # ps) @ x @ ss" by simp
      then show ?thesis by blast
    qed
  next
    assume "\<exists>ps ss. c # cs = ps @ x @ ss"
    then obtain ps ss where eq: "c # cs = ps @ x @ ss" by blast
    show "py_in x (c # cs)"
    proof (cases ps)
      case Nil
      with eq have "prefix x (c # cs)" by (simp add: prefix_def)
      then show ?thesis by simp
    next
      case (Cons p ps')
      with eq have "cs = ps' @ x @ ss" by simp
      with Cons.IH have "py_in x cs" by blast
      then show ?thesis by simp
    qed
  qed
qed

lemma py_in_append: "py_in x (ps @ x @ ss)"
  by (auto simp: py_in_iff)

section \<open>The branches of \<^verbatim>\<open>call_tool\<close>\<close>

lemma call_tool_create_missing:
  "map_of arguments ''title'' = None \<Longrightarrow>
   call_tool ''create_task'' arguments now s
     = (Inl (KeyError ''title''), s\<lparr>task_counter := task_counter s + 1\<rparr>)"
  by (simp add: call_tool_def)

lemma call_tool_create:
  "map_of arguments ''title'' = Some ttl \<Longrightarrow>
   call_tool ''create_task'' arguments now s
     = (Inr [TextContent [Lit ''Task created successfully!\<newline>\<newline>'',
                          Dumps (task_json (new_task (task_counter s + 1) ttl arguments now))]],
        \<lparr>tasks = AList.update (task_counter s + 1)
                   (new_task (task_counter s + 1) ttl arguments now) (tasks s),
         task_counter = task_counter s + 1\<rparr>)"
  by (simp add: call_tool_def new_task_def Let_def)

lemma call_tool_complete_absent:
  "map_of arguments ''task_id'' = Some v \<Longrightarrow> py_int v = Inr task_id \<Longrightarrow>
   map_of (tasks s) task_id = None \<Longrightarrow>
   call_tool ''complete_task'' arguments now s
     = (Inr [TextContent [Lit (''Task '' @ str_int task_id @ '' not found'')]], s)"
  by (simp add: call_tool_def)

lemma call_tool_complete_present:
  "map_of arguments ''task_id'' = Some v \<Longrightarrow> py_int v = Inr task_id \<Longrightarrow>
   map_of (tasks s) task_id = Some t \<Longrightarrow>
   call_tool ''complete_task'' arguments now s
     = (Inr [TextContent [Lit (''Task '' @ str_int task_id @ '' marked as completed!\<newline>\<newline>''),
                          Dumps (task_json (t\<lparr>completed := True, completed_at := Some now\<rparr>))]],
        s\<lparr>tasks := AList.update task_id (t\<lparr>completed := True, completed_at := Some now\<rparr>)
                     (tasks s)\<rparr>)"
  by (simp add: call_tool_def Let_def)

lemma call_tool_delete_absent:
  "map_of arguments ''task_id'' = Some v \<Longrightarrow> py_int v = Inr task_id \<Longrightarrow>
   map_of (tasks s) task_id = None \<Longrightarrow>
   call_tool ''delete_task'' arguments now s
     = (Inr [TextContent [Lit (''Task '' @ str_int task_id @ '' not found'')]], s)"
  by (simp add: call_tool_def)

lemma call_tool_delete_present:
  "map_of arguments ''task_id'' = Some v \<Longrightarrow> py_int v = Inr task_id \<Longrightarrow>
   map_of (tasks s) task_id = Some t \<Longrightarrow>
   call_tool ''delete_task'' arguments now s
     = (Inr [TextContent [Lit (''Task '' @ str_int task_id @ '' deleted successfully!\<newline>\<newline>''),
                          Dumps (task_json t)]],
        s\<lparr>tasks := AList.delete task_id (tasks s)\<rparr>)"
  by (simp add: call_tool_def Let_def)

lemma call_tool_unknown:
  "name \<notin> {''create_task'', ''complete_task'', ''delete_task'', ''search_tasks''} \<Longrightarrow>
   call_tool name arguments now s = (Inl (ValueError (''Unknown tool: '' @ name)), s)"
  by (simp add: call_tool_def)

section \<open>Soft and hard failures of the tools\<close>

text \<open>
  Claim C2. In every store, \<^verbatim>\<open>complete_task\<close> and \<^verbatim>\<open>delete_task\<close> called with an integer
  \<^verbatim>\<open>task_id\<close> that is not a key of \<^verbatim>\<open>tasks\<close> return one text, \<^verbatim>\<open>Task N not found\<close>, as an
  ordinary result, and leave the store as it was. A tool name other than the four known ones
  raises \<^verbatim>\<open>ValueError("Unknown tool: ...")\<close>, whatever the arguments are.
\<close>

theorem tool_not_found_is_a_result:
  "(map_of arguments ''task_id'' = Some (PInt task_id) \<and> task_id \<notin> fst ` set (tasks s) \<longrightarrow>
      call_tool ''complete_task'' arguments now s
        = (Inr [TextContent [Lit (''Task '' @ str_int task_id @ '' not found'')]], s)
      \<and> call_tool ''delete_task'' arguments now s
        = (Inr [TextContent [Lit (''Task '' @ str_int task_id @ '' not found'')]], s)
      \<and> py_in ''not found'' (''Task '' @ str_int task_id @ '' not found''))
   \<and> (name \<notin> {''create_task'', ''complete_task'', ''delete_task'', ''search_tasks''} \<longrightarrow>
        call_tool name arguments now s = (Inl (ValueError (''Unknown tool: '' @ name)), s))"
proof -
  have "py_in ''not found'' ((''Task '' @ str_int task_id @ '' '') @ ''not found'' @ [])"
    by (rule py_in_append)
  then have found: "py_in ''not found'' (''Task '' @ str_int task_id @ '' not found'')"
    by simp
  show ?thesis
    using found
    by (auto simp: call_tool_complete_absent call_tool_delete_absent call_tool_unknown
        map_of_eq_None_iff simp del: py_in.simps)
qed

theorem tool_not_found_is_a_result_witness:
  "call_tool ''complete_task'' [(''task_id'', PInt 7)] ''t'' init
     = (Inr [TextContent [Lit ''Task 7 not found'']], init)
   \<and> call_tool ''delete_task'' [(''task_id'', PInt 7)] ''t'' init
     = (Inr [TextContent [Lit ''Task 7 not found'']], init)
   \<and> py_in ''not found'' ''Task 7 not found''
   \<and> call_tool ''bogus_tool'' [] ''t'' init = (Inl (ValueError ''Unknown tool: bogus_tool''), init)"
proof -
  have s: "str_int 7 = ''7''" by code_simp
  show ?thesis
    using tool_not_found_is_a_result [of "[(''task_id'', PInt 7)]" 7 init "''t''" "''bogus_tool''"]
      tool_not_found_is_a_result [of "[]" 7 init "''t''" "''bogus_tool''"]
    by (simp add: s init_def)
qed

section \<open>What \<^verbatim>\<open>create_task\<close> accepts\<close>

text \<open>
  Claim C3, as stated, fails: a title that is the empty string is accepted. On the empty store
  the call below returns the confirmation and stores task 1 with the empty title.
\<close>

theorem create_task_accepts_empty_title:
  "call_tool ''create_task'' [(''title'', PStr '''')] ''2026-01-01T00:00:00'' init
     = (Inr [TextContent [Lit ''Task created successfully!\<newline>\<newline>'',
                          Dumps (JObj [(''id'', JInt 1), (''title'', JStr ''''),
                                       (''description'', JStr ''''),
                                       (''priority'', JStr ''medium''),
                                       (''completed'', JBool False),
                                       (''created_at'', JStr ''2026-01-01T00:00:00'')])]],
        \<lparr>tasks = [(1, \<lparr>id' = 1, title = PStr '''', description = PStr '''',
                         priority = PStr ''medium'', completed = False,
                         created_at = ''2026-01-01T00:00:00'', completed_at = None\<rparr>)],
         task_counter = 1\<rparr>)"
  by (simp add: call_tool_def init_def task_json_def)

text \<open>
  Claim C3, amended. When the key \<^verbatim>\<open>title\<close> is missing, \<^verbatim>\<open>create_task\<close> raises
  \<^verbatim>\<open>KeyError('title')\<close> and \<^verbatim>\<open>tasks\<close> holds what it held before. When the key is present,
  whatever its value (the empty string too), the call returns the confirmation and stores the
  new task, with that title, under the next identifier.
\<close>

theorem create_task_title:
  "(map_of arguments ''title'' = None \<longrightarrow>
      fst (call_tool ''create_task'' arguments now s) = Inl (KeyError ''title'')
      \<and> tasks (snd (call_tool ''create_task'' arguments now s)) = tasks s)
   \<and> (\<forall>ttl. map_of arguments ''title'' = Some ttl \<longrightarrow>
        fst (call_tool ''create_task'' arguments now s)
          = Inr [TextContent [Lit ''Task created successfully!\<newline>\<newline>'',
                              Dumps (task_json (new_task (task_counter s + 1) ttl arguments now))]]
        \<and> map_of (tasks (snd (call_tool ''create_task'' arguments now s))) (task_counter s + 1)
          = Some (new_task (task_counter s + 1) ttl arguments now)
        \<and> title (new_task (task_counter s + 1) ttl arguments now) = ttl)"
  by (auto simp: call_tool_create_missing call_tool_create update_conv' new_task_def)

theorem create_task_title_witness:
  "fst (call_tool ''create_task'' [(''priority'', PStr ''high'')] ''t'' init) = Inl (KeyError ''title'')
   \<and> tasks (snd (call_tool ''create_task'' [(''priority'', PStr ''high'')] ''t'' init)) = []
   \<and> map_of (tasks (snd (call_tool ''create_task'' [(''title'', PStr '''')] ''t'' init))) 1
       = Some \<lparr>id' = 1, title = PStr '''', description = PStr '''', priority = PStr ''medium'',
               completed = False, created_at = ''t'', completed_at = None\<rparr>"
  using create_task_title [of "[(''priority'', PStr ''high'')]" "''t''" init]
    create_task_title [of "[(''title'', PStr '''')]" "''t''" init]
  by (simp add: init_def new_task_def)

text \<open>
  Claim C7, as stated, fails: a priority outside \<^verbatim>\<open>low\<close>, \<^verbatim>\<open>medium\<close>, \<^verbatim>\<open>high\<close> is stored
  as it came.
\<close>

theorem create_task_stores_unlisted_priority:
  "call_tool ''create_task'' [(''title'', PStr ''a''), (''priority'', PStr ''urgent'')]
       ''2026-01-01T00:00:00'' init
     = (Inr [TextContent [Lit ''Task created successfully!\<newline>\<newline>'',
                          Dumps (JObj [(''id'', JInt 1), (''title'', JStr ''a''),
                                       (''description'', JStr ''''),
                                       (''priority'', JStr ''urgent''),
                                       (''completed'', JBool False),
                                       (''created_at'', JStr ''2026-01-01T00:00:00'')])]],
        \<lparr>tasks = [(1, \<lparr>id' = 1, title = PStr ''a'', description = PStr '''',
                         priority = PStr ''urgent'', completed = False,
                         created_at = ''2026-01-01T00:00:00'', completed_at = None\<rparr>)],
         task_counter = 1\<rparr>)"
  by (simp add: call_tool_def init_def task_json_def)

text \<open>
  Claim C7, amended. A \<^verbatim>\<open>create_task\<close> call that carries a title returns the confirmation
  and stores a task whose priority is the value of the key \<^verbatim>\<open>priority\<close> as given, whatever
  it is, and \<^verbatim>\<open>medium\<close> when the key is absent.
\<close>

theorem create_task_priority:
  assumes "map_of arguments ''title'' = Some ttl"
  shows "\<exists>t. fst (call_tool ''create_task'' arguments now s)
                = Inr [TextContent [Lit ''Task created successfully!\<newline>\<newline>'',
                                    Dumps (task_json t)]]
             \<and> map_of (tasks (snd (call_tool ''create_task'' arguments now s)))
                  (task_counter s + 1) = Some t
             \<and> priority t = (case map_of arguments ''priority'' of
                               None \<Rightarrow> PStr ''medium'' | Some p \<Rightarrow> p)"
  using assms by (simp add: call_tool_create update_conv' new_task_def)

theorem create_task_priority_witness:
  "\<exists>t. fst (call_tool ''create_task'' [(''title'', PStr ''a'')] ''t'' init)
          = Inr [TextContent [Lit ''Task created successfully!\<newline>\<newline>'', Dumps (task_json t)]]
       \<and> map_of (tasks (snd (call_tool ''create_task'' [(''title'', PStr ''a'')] ''t'' init))) 1
          = Some t
       \<and> priority t = PStr ''medium''"
  using create_task_priority [of "[(''title'', PStr ''a'')]" "PStr ''a''" "''t''" init]
  by (simp add: init_def)

section \<open>Faults and the store\<close>

text \<open>
  A tool call that raises leaves \<^verbatim>\<open>tasks\<close> as it was, and every tool but \<^verbatim>\<open>create_task\<close>
  leaves the counter as it was too.
\<close>

lemma fault_keeps_tasks:
  "fst (call_tool name arguments now s) = Inl e \<Longrightarrow>
   tasks (snd (call_tool name arguments now s)) = tasks s"
  by (auto simp: call_tool_def Let_def split: if_splits option.splits sum.splits pyval.splits)

lemma fault_keeps_state:
  "name \<noteq> ''create_task'' \<Longrightarrow> fst (call_tool name arguments now s) = Inl e \<Longrightarrow>
   snd (call_tool name arguments now s) = s"
  by (auto simp: call_tool_def Let_def split: if_splits option.splits sum.splits pyval.splits)

text \<open>
  Claim C6 fails on \<^verbatim>\<open>create_task\<close>: the handler increments \<^verbatim>\<open>task_counter\<close> before it
  reads \<^verbatim>\<open>arguments["title"]\<close>, so a call without title raises \<^verbatim>\<open>KeyError\<close> and still leaves
  the counter one higher. On the empty store:
\<close>

theorem failed_create_task_moves_counter:
  "call_tool ''create_task'' [] ''2026-01-01T00:00:00'' \<lparr>tasks = [], task_counter = 0\<rparr>
     = (Inl (KeyError ''title''), \<lparr>tasks = [], task_counter = 1\<rparr>)"
  by (simp add: call_tool_def)

section \<open>The handlers that only read\<close>

lemma search_tasks_frame: "snd (call_tool ''search_tasks'' arguments now s) = s"
  by (simp add: call_tool_def Let_def split: option.splits pyval.splits sum.splits)

lemma read_resource_frame: "snd (read_resource uri now s) = s"
  by (simp add: read_resource_def split: option.splits sum.splits)

lemma get_prompt_frame: "snd (get_prompt name arguments s) = s"
  by (simp add: get_prompt_def Let_def)

text \<open>
  Claim C10. \<^verbatim>\<open>list_tools\<close>, \<^verbatim>\<open>list_resources\<close>, \<^verbatim>\<open>read_resource\<close>, \<^verbatim>\<open>list_prompts\<close>,
  \<^verbatim>\<open>get_prompt\<close> and the tool \<^verbatim>\<open>search_tasks\<close> leave \<^verbatim>\<open>tasks\<close> and \<^verbatim>\<open>task_counter\<close> as
  they found them, for every store and every argument, whether they return or raise.
\<close>

theorem read_only_handlers_keep_the_store:
  "snd (list_tools s) = s \<and> snd (list_resources s) = s \<and> snd (read_resource uri now s) = s
   \<and> snd (list_prompts s) = s \<and> snd (get_prompt name arguments s) = s
   \<and> snd (call_tool ''search_tasks'' tool_arguments now s) = s"
  by (simp add: search_tasks_frame read_resource_frame get_prompt_frame list_tools_def
      list_resources_def list_prompts_def)

section \<open>The flag of \<^verbatim>\<open>daily_summary\<close>\<close>

lemma summary_loop_eq:
  "summary_loop inc ts acc
     = acc @ (if inc then map snd ts else filter (\<lambda>t. \<not> completed t) (map snd ts))"
  by (induction ts arbitrary: acc) auto

lemma include_completed_iff:
  "include_completed arguments
     = (case arguments of
          None \<Rightarrow> True
        | Some d \<Rightarrow> map_of d ''include_completed'' = None
                    \<or> map_of d ''include_completed'' = Some (PStr ''true''))"
  by (auto simp: include_completed_def split: option.splits)

lemma str_int_0: "str_int 0 = ''0''"
  by code_simp

lemma str_int_1: "str_int 1 = ''1''"
  by code_simp

text \<open>
  Claim C8, as stated, fails: the value \<^verbatim>\<open>yes\<close> is not the string \<^verbatim>\<open>false\<close>, and yet the
  completed task of this store is left out of the rendered message.
\<close>

theorem daily_summary_drops_completed_for_yes:
  "get_prompt ''daily_summary'' (Some [(''include_completed'', PStr ''yes'')])
     \<lparr>tasks = [(1, \<lparr>id' = 1, title = PStr ''a'', description = PStr '''',
                     priority = PStr ''medium'', completed = True,
                     created_at = ''2026-01-01T00:00:00'',
                     completed_at = Some ''2026-01-02T00:00:00''\<rparr>)],
      task_counter = 1\<rparr>
   = (Inr (GetPromptResult ''Daily task summary prompt''
             [PromptMessage ''user''
                (TextContent
                   [Lit ''Please provide a daily summary of tasks.\<newline>\<newline>Current tasks (0 total):\<newline>'',
                    Dumps (JArr []),
                    Lit ''\<newline>\<newline>Please:\<newline>1. Summarize the overall status\<newline>2. Highlight high-priority tasks\<newline>3. Identify any overdue or urgent items\<newline>4. Suggest next actions''])]),
      \<lparr>tasks = [(1, \<lparr>id' = 1, title = PStr ''a'', description = PStr '''',
                     priority = PStr ''medium'', completed = True,
                     created_at = ''2026-01-01T00:00:00'',
                     completed_at = Some ''2026-01-02T00:00:00''\<rparr>)],
      task_counter = 1\<rparr>)"
  by (simp add: get_prompt_def daily_summary_tasks_def include_completed_def user_message_def
      str_int_0)

text \<open>
  Claim C8, amended. The rendered \<^verbatim>\<open>daily_summary\<close> message lists every task, the completed
  ones too, exactly when the argument dictionary is absent, or has no key
  \<^verbatim>\<open>include_completed\<close>, or maps it to the string \<^verbatim>\<open>true\<close>. For every other value of the
  key the message lists the tasks that are not completed, in store order.
\<close>

theorem daily_summary_include_completed:
  "fst (get_prompt ''daily_summary'' arguments s)
     = (let shown =
              (if (case arguments of
                     None \<Rightarrow> True
                   | Some d \<Rightarrow> map_of d ''include_completed'' = None
                               \<or> map_of d ''include_completed'' = Some (PStr ''true''))
               then map snd (tasks s)
               else filter (\<lambda>t. \<not> completed t) (map snd (tasks s)))
        in Inr (GetPromptResult ''Daily task summary prompt''
                  [PromptMessage ''user''
                     (TextContent
                        [Lit (''Please provide a daily summary of tasks.\<newline>\<newline>Current tasks (''
                              @ str_int (int (length shown)) @ '' total):\<newline>''),
                         Dumps (JArr (map task_json shown)),
                         Lit ''\<newline>\<newline>Please:\<newline>1. Summarize the overall status\<newline>2. Highlight high-priority tasks\<newline>3. Identify any overdue or urgent items\<newline>4. Suggest next actions''])]))"
  by (simp add: get_prompt_def daily_summary_tasks_def summary_loop_eq include_completed_iff
      user_message_def Let_def)

section \<open>Searching\<close>

lemma map_eq_append3:
  assumes "map f a = xs @ ys @ zs"
  shows "\<exists>ps u ss. a = ps @ u @ ss \<and> map f u = ys"
proof -
  let ?r = "drop (length xs) a"
  have "map f ?r = drop (length xs) (map f a)" by (simp add: drop_map)
  also have "\<dots> = ys @ zs" by (simp add: assms)
  finally have r: "map f ?r = ys @ zs" .
  have "map f (take (length ys) ?r) = take (length ys) (map f ?r)" by (simp add: take_map)
  also have "\<dots> = ys" by (simp add: r)
  finally have u: "map f (take (length ys) ?r) = ys" .
  have "a = take (length xs) a @ take (length ys) ?r @ drop (length ys) ?r"
    by (metis append_take_drop_id)
  with u show ?thesis by blast
qed

text \<open>
  Looking for the lower-cased keyword in the lower-cased text finds the keyword as a run of the
  text up to the case of letters.
\<close>

lemma lower_substring:
  "py_in (py_lower k) (py_lower a) \<longleftrightarrow> (\<exists>ps u ss. a = ps @ u @ ss \<and> py_lower u = py_lower k)"
proof
  assume "py_in (py_lower k) (py_lower a)"
  then obtain ps' ss' where "py_lower a = ps' @ py_lower k @ ss'"
    unfolding py_in_iff by blast
  then have "map char_lower a = ps' @ map char_lower k @ ss'"
    by (simp add: py_lower_def)
  from map_eq_append3 [OF this]
  show "\<exists>ps u ss. a = ps @ u @ ss \<and> py_lower u = py_lower k"
    by (simp add: py_lower_def)
next
  assume "\<exists>ps u ss. a = ps @ u @ ss \<and> py_lower u = py_lower k"
  then obtain ps u ss where "a = ps @ u @ ss" and "py_lower u = py_lower k" by blast
  then have "py_lower a = py_lower ps @ py_lower k @ py_lower ss" by (simp add: py_lower_def)
  then show "py_in (py_lower k) (py_lower a)" by (simp add: py_in_append del: py_in.simps)
qed

lemma field_matches_substring:
  "field_matches (py_lower k) (PStr a)
     \<longleftrightarrow> (\<exists>ps u ss. a = ps @ u @ ss \<and> py_lower u = py_lower k)"
  by (simp add: field_matches_def lower_substring del: py_in.simps)

lemma field_matches_empty: "field_matches (py_lower '''') (PStr a)"
  by (cases a) (simp_all add: field_matches_def py_lower_def)

lemma lower_DOC: "py_lower ''DOC'' = ''doc''"
  by code_simp

lemma field_matches_doc: "field_matches ''doc'' (PStr ''Write documentation'')"
  by code_simp

lemma field_matches_doc_not: "\<not> field_matches ''doc'' (PStr ''Review pull requests'')"
  by code_simp

lemma field_matches_doc_empty: "\<not> field_matches ''doc'' (PStr '''')"
  by code_simp

lemma search_loop_eq:
  "\<forall>(i, t) \<in> set ts. \<exists>a b. title t = PStr a \<and> description t = PStr b \<Longrightarrow>
   search_loop keyword ts acc
     = Inr (acc @ filter (\<lambda>t. field_matches keyword (title t)
                              \<or> field_matches keyword (description t))
                    (map snd ts))"
proof (induction ts arbitrary: acc)
  case Nil
  then show ?case by simp
next
  case (Cons p ts)
  obtain i t where p: "p = (i, t)" by (cases p)
  from Cons.prems p obtain a b where ab: "title t = PStr a" "description t = PStr b" by auto
  from Cons.prems have rest: "\<forall>(i, t) \<in> set ts. \<exists>a b. title t = PStr a \<and> description t = PStr b"
    by simp
  show ?case
    using Cons.IH [OF rest] by (simp add: p ab field_matches_def)
qed

text \<open>Lower-casing sends two characters to the same character exactly when they are the same letter.\<close>

lemma of_char_char_lower:
  "(of_char (char_lower c) :: nat) = (if is_capital c then of_char c + 32 else of_char c)"
proof (cases "is_capital c")
  case True
  then have "(of_char c :: nat) + 32 < 256"
    by (auto simp: is_capital_def)
  then have "(of_char (char_of ((of_char c :: nat) + 32)) :: nat) = of_char c + 32"
    by (simp only: of_char_of mod_less)
  with True show ?thesis
    by (simp add: char_lower_def is_capital_def Let_def)
next
  case False
  then have "char_lower c = c"
    unfolding char_lower_def is_capital_def Let_def by (simp only: if_False)
  with False show ?thesis by simp
qed

lemma char_lower_same_letter: "char_lower c = char_lower d \<longleftrightarrow> same_letter c d"
proof -
  have "char_lower c = char_lower d
          \<longleftrightarrow> (of_char (char_lower c) :: nat) = of_char (char_lower d)"
    by (simp only: of_char_eq_iff)
  also have "\<dots> \<longleftrightarrow> (of_char c :: nat) = of_char d
                    \<or> (is_capital c \<and> (of_char d :: nat) = of_char c + 32)
                    \<or> (is_capital d \<and> (of_char c :: nat) = of_char d + 32)"
    unfolding of_char_char_lower by (auto simp: is_capital_def)
  also have "\<dots> \<longleftrightarrow> same_letter c d"
    by (simp only: same_letter_def of_char_eq_iff)
  finally show ?thesis .
qed

lemma py_lower_same_letters: "py_lower u = py_lower k \<longleftrightarrow> list_all2 same_letter u k"
proof -
  have "py_lower u = py_lower k \<longleftrightarrow> list_all2 (=) (map char_lower u) (map char_lower k)"
    by (simp only: py_lower_def list.rel_eq)
  also have "\<dots> \<longleftrightarrow> list_all2 (\<lambda>c d. char_lower c = char_lower d) u k"
    by (simp only: list_all2_map1 list_all2_map2)
  also have "\<dots> \<longleftrightarrow> list_all2 same_letter u k"
    by (simp only: char_lower_same_letter)
  finally show ?thesis .
qed

text \<open>The test of the code, on lower-cased texts, is the containment that the spec words.\<close>

lemma contains_ignoring_case_iff:
  "contains_ignoring_case k v \<longleftrightarrow> field_matches (py_lower k) v"
proof (cases v)
  case (PStr a)
  then show ?thesis
    by (simp only: contains_ignoring_case_def field_matches_def pyval.case lower_substring
        py_lower_same_letters)
qed (simp_all add: contains_ignoring_case_def field_matches_def)

lemma matching_tasks_eq:
  "matching_tasks k ts
     = filter (\<lambda>t. field_matches (py_lower k) (title t)
                   \<or> field_matches (py_lower k) (description t)) (map snd ts)"
  by (simp only: matching_tasks_def contains_ignoring_case_iff)

text \<open>
  Claim C9, as stated, fails: it speaks of every store state, and \<^verbatim>\<open>create_task\<close> stores
  whatever title it is given. After \<^verbatim>\<open>create_task\<close> with the title 5, \<^verbatim>\<open>search_tasks\<close> raises
  \<^verbatim>\<open>AttributeError\<close> (an \<^verbatim>\<open>int\<close> has no \<^verbatim>\<open>lower\<close>), and does so for the empty keyword too,
  which by the claim matches every task.
\<close>

theorem search_tasks_raises_on_number_title:
  "run [Call ''create_task'' [(''title'', PInt 5)] ''2026-01-01T00:00:00''] init
     = \<lparr>tasks = [(1, \<lparr>id' = 1, title = PInt 5, description = PStr '''',
                       priority = PStr ''medium'', completed = False,
                       created_at = ''2026-01-01T00:00:00'', completed_at = None\<rparr>)],
        task_counter = 1\<rparr>
   \<and> call_tool ''search_tasks'' [(''keyword'', PStr '''')] ''2026-01-02T00:00:00''
         (run [Call ''create_task'' [(''title'', PInt 5)] ''2026-01-01T00:00:00''] init)
     = (Inl AttributeError,
        \<lparr>tasks = [(1, \<lparr>id' = 1, title = PInt 5, description = PStr '''',
                        priority = PStr ''medium'', completed = False,
                        created_at = ''2026-01-01T00:00:00'', completed_at = None\<rparr>)],
         task_counter = 1\<rparr>)"
  by (simp add: call_tool_def init_def Let_def py_lower_def)

text \<open>
  Claim C9, amended. In a store whose titles and descriptions are all strings, and for a keyword
  that is a string (texts of code points below 256, which are lower-cased character by
  character), \<^verbatim>\<open>search_tasks\<close> returns the count and the list of exactly the tasks whose title
  or description contains the keyword ignoring case, in store order, and leaves the store as
  it was. The empty keyword is contained in every text, and \<^verbatim>\<open>DOC\<close> is contained in
  \<^verbatim>\<open>Write documentation\<close>.
\<close>

theorem search_tasks_result:
  assumes "map_of arguments ''keyword'' = Some (PStr k)"
    and "\<forall>(i, t) \<in> set (tasks s). \<exists>a b. title t = PStr a \<and> description t = PStr b"
  shows "call_tool ''search_tasks'' arguments now s
           = (Inr [TextContent
                     [Lit (''Found '' @ str_int (int (length (matching_tasks k (tasks s))))
                           @ '' task(s) matching '' @ [CHR 0x27] @ py_lower k
                           @ [CHR 0x27] @ '':\<newline>\<newline>''),
                      Dumps (JArr (map task_json (matching_tasks k (tasks s))))]], s)
         \<and> contains_ignoring_case '''' (PStr a)
         \<and> contains_ignoring_case ''DOC'' (PStr ''Write documentation'')"
proof -
  have d: "contains_ignoring_case ''DOC'' (PStr ''Write documentation'')"
    by (simp only: contains_ignoring_case_iff lower_DOC field_matches_doc)
  have e: "contains_ignoring_case '''' (PStr a)"
    by (simp only: contains_ignoring_case_iff field_matches_empty)
  have r: "call_tool ''search_tasks'' arguments now s
             = (Inr [TextContent
                       [Lit (''Found '' @ str_int (int (length (matching_tasks k (tasks s))))
                             @ '' task(s) matching '' @ [CHR 0x27] @ py_lower k
                             @ [CHR 0x27] @ '':\<newline>\<newline>''),
                        Dumps (JArr (map task_json (matching_tasks k (tasks s))))]], s)"
    using assms(1) search_loop_eq [OF assms(2), of "py_lower k" "[]"]
    by (simp add: call_tool_def Let_def matching_tasks_eq)
  from r e d show ?thesis by blast
qed

lemma matching_tasks_doc:
  "matching_tasks ''DOC''
     [(1, \<lparr>id' = 1, title = PStr ''Write documentation'', description = PStr '''',
            priority = PStr ''high'', completed = False, created_at = ''c1'',
            completed_at = None\<rparr>),
      (2, \<lparr>id' = 2, title = PStr ''Review pull requests'', description = PStr '''',
            priority = PStr ''medium'', completed = False, created_at = ''c2'',
            completed_at = None\<rparr>)]
   = [\<lparr>id' = 1, title = PStr ''Write documentation'', description = PStr '''',
       priority = PStr ''high'', completed = False, created_at = ''c1'',
       completed_at = None\<rparr>]"
  by (simp add: matching_tasks_eq lower_DOC field_matches_doc field_matches_doc_not
      field_matches_doc_empty)

theorem search_tasks_result_witness:
  "call_tool ''search_tasks'' [(''keyword'', PStr ''DOC'')] ''t''
     \<lparr>tasks = [(1, \<lparr>id' = 1, title = PStr ''Write documentation'', description = PStr '''',
                     priority = PStr ''high'', completed = False, created_at = ''c1'',
                     completed_at = None\<rparr>),
               (2, \<lparr>id' = 2, title = PStr ''Review pull requests'', description = PStr '''',
                     priority = PStr ''medium'', completed = False, created_at = ''c2'',
                     completed_at = None\<rparr>)],
      task_counter = 2\<rparr>
   = (Inr [TextContent
             [Lit (''Found 1 task(s) matching '' @ [CHR 0x27] @ ''doc'' @ [CHR 0x27]
                   @ '':\<newline>\<newline>''),
              Dumps (JArr [task_json
                             \<lparr>id' = 1, title = PStr ''Write documentation'',
                              description = PStr '''', priority = PStr ''high'',
                              completed = False, created_at = ''c1'',
                              completed_at = None\<rparr>])]],
      \<lparr>tasks = [(1, \<lparr>id' = 1, title = PStr ''Write documentation'', description = PStr '''',
                     priority = PStr ''high'', completed = False, created_at = ''c1'',
                     completed_at = None\<rparr>),
               (2, \<lparr>id' = 2, title = PStr ''Review pull requests'', description = PStr '''',
                     priority = PStr ''medium'', completed = False, created_at = ''c2'',
                     completed_at = None\<rparr>)],
      task_counter = 2\<rparr>)"
  using search_tasks_result
    [of "[(''keyword'', PStr ''DOC'')]" "''DOC''"
        "\<lparr>tasks = [(1, \<lparr>id' = 1, title = PStr ''Write documentation'', description = PStr '''',
                     priority = PStr ''high'', completed = False, created_at = ''c1'',
                     completed_at = None\<rparr>),
               (2, \<lparr>id' = 2, title = PStr ''Review pull requests'', description = PStr '''',
                     priority = PStr ''medium'', completed = False, created_at = ''c2'',
                     completed_at = None\<rparr>)],
          task_counter = 2\<rparr>" "''t''" "''''"]
  by (simp add: matching_tasks_doc lower_DOC str_int_1)

section \<open>What a tool call can do to the store\<close>

lemma call_tool_state_cases:
  obtains
    (same) "name \<noteq> ''create_task''" "snd (call_tool name arguments now s) = s"
  | (failed_create) "name = ''create_task''" "map_of arguments ''title'' = None"
      "snd (call_tool name arguments now s) = s\<lparr>task_counter := task_counter s + 1\<rparr>"
  | (created) ttl where "name = ''create_task''" "map_of arguments ''title'' = Some ttl"
      "snd (call_tool name arguments now s)
         = \<lparr>tasks = AList.update (task_counter s + 1)
                      (new_task (task_counter s + 1) ttl arguments now) (tasks s),
            task_counter = task_counter s + 1\<rparr>"
  | (completed) k t where "name = ''complete_task''" "map_of (tasks s) k = Some t"
      "snd (call_tool name arguments now s)
         = s\<lparr>tasks := AList.update k (t\<lparr>completed := True, completed_at := Some now\<rparr>)
                         (tasks s)\<rparr>"
  | (deleted) k t where "name = ''delete_task''" "map_of (tasks s) k = Some t"
      "snd (call_tool name arguments now s) = s\<lparr>tasks := AList.delete k (tasks s)\<rparr>"
proof -
  consider (cr) "name = ''create_task''" | (co) "name = ''complete_task''"
    | (de) "name = ''delete_task''" | (se) "name = ''search_tasks''"
    | (un) "name \<notin> {''create_task'', ''complete_task'', ''delete_task'', ''search_tasks''}"
    by blast
  then show thesis
  proof cases
    case cr
    show thesis
    proof (cases "map_of arguments ''title''")
      case None
      with cr show thesis
        using failed_create call_tool_create_missing [of arguments now s] by simp
    next
      case (Some ttl)
      with cr show thesis
        using created call_tool_create [of arguments ttl now s] by simp
    qed
  next
    case co
    show thesis
    proof (cases "map_of arguments ''task_id''")
      case None
      with co same show thesis by (simp add: call_tool_def)
    next
      case (Some v)
      show thesis
      proof (cases "py_int v")
        case (Inl e)
        with co Some same show thesis by (simp add: call_tool_def)
      next
        case (Inr k)
        show thesis
        proof (cases "map_of (tasks s) k")
          case None
          with co Some Inr same show thesis by (simp add: call_tool_complete_absent)
        next
          case (Some t)
          with co \<open>map_of arguments ''task_id'' = Some v\<close> Inr show thesis
            using completed [of k t] by (simp add: call_tool_complete_present)
        qed
      qed
    qed
  next
    case de
    show thesis
    proof (cases "map_of arguments ''task_id''")
      case None
      with de same show thesis by (simp add: call_tool_def)
    next
      case (Some v)
      show thesis
      proof (cases "py_int v")
        case (Inl e)
        with de Some same show thesis by (simp add: call_tool_def)
      next
        case (Inr k)
        show thesis
        proof (cases "map_of (tasks s) k")
          case None
          with de Some Inr same show thesis by (simp add: call_tool_delete_absent)
        next
          case (Some t)
          with de \<open>map_of arguments ''task_id'' = Some v\<close> Inr show thesis
            using deleted [of k t] by (simp add: call_tool_delete_present)
        qed
      qed
    qed
  next
    case se
    with same show thesis by (simp add: search_tasks_frame)
  next
    case un
    with same show thesis by (simp add: call_tool_unknown)
  qed
qed

lemma set_update_subset: "set (AList.update k v al) \<subseteq> insert (k, v) (set al)"
  by (induction al) auto

lemma all_of_subset_insert:
  "set ys \<subseteq> insert p (set xs) \<Longrightarrow> P p \<Longrightarrow> \<forall>q \<in> set xs. P q \<Longrightarrow> \<forall>q \<in> set ys. P q"
  by auto

lemma set_delete_subset: "set (AList.delete k al) \<subseteq> set al"
  by (auto simp: AList.delete_eq)

section \<open>\<^verbatim>\<open>completed\<close> and \<^verbatim>\<open>completed_at\<close>\<close>

lemma completed_at_step:
  assumes "\<forall>(k, t) \<in> set (tasks s). (completed_at t \<noteq> None) = completed t"
  shows "\<forall>(k, t) \<in> set (tasks (snd (call_tool name arguments now s))).
           (completed_at t \<noteq> None) = completed t"
proof (cases rule: call_tool_state_cases [of name arguments now s])
  case same
  with assms show ?thesis by simp
next
  case failed_create
  with assms show ?thesis by simp
next
  case (created ttl)
  have "set (tasks (snd (call_tool name arguments now s)))
          \<subseteq> insert (task_counter s + 1, new_task (task_counter s + 1) ttl arguments now)
              (set (tasks s))"
    using created(3) set_update_subset by simp
  from all_of_subset_insert [OF this _ assms] show ?thesis by (simp add: new_task_def)
next
  case (completed k t)
  have "set (tasks (snd (call_tool name arguments now s)))
          \<subseteq> insert (k, t\<lparr>completed := True, completed_at := Some now\<rparr>) (set (tasks s))"
    using completed(3) set_update_subset by simp
  from all_of_subset_insert [OF this _ assms] show ?thesis by simp
next
  case (deleted k t)
  have "set (tasks (snd (call_tool name arguments now s))) \<subseteq> set (tasks s)"
    using deleted(3) set_delete_subset by simp
  with assms show ?thesis by auto
qed

lemma completed_at_run:
  "\<forall>(k, t) \<in> set (tasks s). (completed_at t \<noteq> None) = completed t \<Longrightarrow>
   \<forall>(k, t) \<in> set (tasks (run cs s)). (completed_at t \<noteq> None) = completed t"
proof (induction cs arbitrary: s)
  case Nil
  then show ?case by simp
next
  case (Cons c cs)
  obtain name arguments now where c: "c = Call name arguments now" by (cases c)
  from Cons.prems have "\<forall>(k, t) \<in> set (tasks (step c s)). (completed_at t \<noteq> None) = completed t"
    unfolding c step.simps by (rule completed_at_step)
  from Cons.IH [OF this] show ?case by simp
qed

text \<open>
  Claim C4. After any sequence of tool calls from the empty store, every stored task has the key
  \<^verbatim>\<open>completed_at\<close> exactly when its \<^verbatim>\<open>completed\<close> is true. Completing a stored task sets
  \<^verbatim>\<open>completed\<close> and puts the clock reading into \<^verbatim>\<open>completed_at\<close>; completing it again puts the
  new clock reading there and changes no other field of the task, so \<^verbatim>\<open>id\<close> and \<^verbatim>\<open>title\<close>
  stay.
\<close>

theorem completed_at_iff_completed:
  "(\<forall>(k, t) \<in> set (tasks (run cs init)). (completed_at t \<noteq> None) = completed t)
   \<and> (map_of arguments ''task_id'' = Some (PInt k) \<and> map_of (tasks s) k = Some t \<longrightarrow>
        map_of (tasks (snd (call_tool ''complete_task'' arguments now1 s))) k
          = Some (t\<lparr>completed := True, completed_at := Some now1\<rparr>)
        \<and> map_of (tasks (snd (call_tool ''complete_task'' arguments now2
                                 (snd (call_tool ''complete_task'' arguments now1 s))))) k
          = Some (t\<lparr>completed := True, completed_at := Some now2\<rparr>))"
proof -
  have inv: "\<forall>(k, t) \<in> set (tasks (run cs init)). (completed_at t \<noteq> None) = completed t"
    by (rule completed_at_run) (simp add: init_def)
  have twice: "map_of (tasks (snd (call_tool ''complete_task'' arguments now1 s))) k
                 = Some (t\<lparr>completed := True, completed_at := Some now1\<rparr>)
               \<and> map_of (tasks (snd (call_tool ''complete_task'' arguments now2
                                        (snd (call_tool ''complete_task'' arguments now1 s))))) k
                 = Some (t\<lparr>completed := True, completed_at := Some now2\<rparr>)"
    if a: "map_of arguments ''task_id'' = Some (PInt k)" and t: "map_of (tasks s) k = Some t"
  proof -
    let ?t1 = "t\<lparr>completed := True, completed_at := Some now1\<rparr>"
    let ?s1 = "s\<lparr>tasks := AList.update k ?t1 (tasks s)\<rparr>"
    have s1: "snd (call_tool ''complete_task'' arguments now1 s) = ?s1"
      using a t by (simp add: call_tool_complete_present)
    have t1: "map_of (tasks ?s1) k = Some ?t1"
      by (simp add: update_conv')
    have s2: "snd (call_tool ''complete_task'' arguments now2 ?s1)
                = ?s1\<lparr>tasks := AList.update k (?t1\<lparr>completed := True, completed_at := Some now2\<rparr>)
                                  (tasks ?s1)\<rparr>"
      using a t1 by (simp only: call_tool_complete_present [OF a _ t1] py_int.simps snd_conv)
    show ?thesis
      unfolding s1 s2 by (simp add: update_conv')
  qed
  from inv twice show ?thesis by blast
qed

theorem completed_at_iff_completed_witness:
  "tasks (run [Call ''create_task'' [(''title'', PStr ''a'')] ''t1'',
            Call ''create_task'' [(''title'', PStr ''b'')] ''t2'',
            Call ''complete_task'' [(''task_id'', PInt 1)] ''t3''] init)
       = [(1, \<lparr>id' = 1, title = PStr ''a'', description = PStr '''', priority = PStr ''medium'',
                completed = True, created_at = ''t1'', completed_at = Some ''t3''\<rparr>),
          (2, \<lparr>id' = 2, title = PStr ''b'', description = PStr '''', priority = PStr ''medium'',
                completed = False, created_at = ''t2'', completed_at = None\<rparr>)]
   \<and> map_of (tasks (snd (call_tool ''complete_task'' [(''task_id'', PInt 1)] ''t4''
                           (snd (call_tool ''complete_task'' [(''task_id'', PInt 1)] ''t3''
                                   \<lparr>tasks = [(1, \<lparr>id' = 1, title = PStr ''a'',
                                                    description = PStr '''',
                                                    priority = PStr ''medium'', completed = False,
                                                    created_at = ''t1'', completed_at = None\<rparr>)],
                                     task_counter = 1\<rparr>))))) 1
       = Some \<lparr>id' = 1, title = PStr ''a'', description = PStr '''', priority = PStr ''medium'',
               completed = True, created_at = ''t1'', completed_at = Some ''t4''\<rparr>"
proof -
  let ?cs = "[Call ''create_task'' [(''title'', PStr ''a'')] ''t1'',
              Call ''create_task'' [(''title'', PStr ''b'')] ''t2'',
              Call ''complete_task'' [(''task_id'', PInt 1)] ''t3'']"
  let ?t = "\<lparr>id' = 1, title = PStr ''a'', description = PStr '''', priority = PStr ''medium'',
             completed = False, created_at = ''t1'', completed_at = None\<rparr>"
  let ?s = "\<lparr>tasks = [(1, ?t)], task_counter = 1\<rparr>"
  have r: "tasks (run ?cs init)
       = [(1, \<lparr>id' = 1, title = PStr ''a'', description = PStr '''', priority = PStr ''medium'',
                completed = True, created_at = ''t1'', completed_at = Some ''t3''\<rparr>),
          (2, \<lparr>id' = 2, title = PStr ''b'', description = PStr '''', priority = PStr ''medium'',
                completed = False, created_at = ''t2'', completed_at = None\<rparr>)]"
    by (simp add: call_tool_def init_def Let_def)
  show ?thesis
    using completed_at_iff_completed
      [of ?cs "[(''task_id'', PInt 1)]" 1 ?s ?t "''t3''" "''t4''"] r
    by simp
qed

section \<open>Identifiers\<close>

lemma ids_bounded_init: "ids_bounded init"
  by (simp add: ids_bounded_def init_def)

lemma map_of_Some_key: "map_of al k = Some v \<Longrightarrow> k \<in> fst ` set al"
  by (metis map_of_eq_None_iff option.distinct(1))

lemma counter_call:
  "task_counter (snd (call_tool name arguments now s))
     = (if name = ''create_task'' then task_counter s + 1 else task_counter s)"
  by (cases rule: call_tool_state_cases [of name arguments now s]) simp_all

lemma ids_bounded_call:
  assumes "ids_bounded s"
  shows "ids_bounded (snd (call_tool name arguments now s))"
proof (cases rule: call_tool_state_cases [of name arguments now s])
  case same
  with assms show ?thesis by simp
next
  case failed_create
  with assms show ?thesis by (auto simp: ids_bounded_def)
next
  case (created ttl)
  with assms show ?thesis by (auto simp: ids_bounded_def dom_update)
next
  case (completed k t)
  from completed(2) have "k \<in> fst ` set (tasks s)" by (rule map_of_Some_key)
  with assms completed(3) show ?thesis by (auto simp: ids_bounded_def dom_update)
next
  case (deleted k t)
  have "fst ` set (AList.delete k (tasks s)) \<subseteq> fst ` set (tasks s)"
    by (rule dom_delete_subset)
  with assms have "\<forall>i \<in> fst ` set (AList.delete k (tasks s)). i \<le> task_counter s"
    unfolding ids_bounded_def by blast
  with deleted(3) show ?thesis by (simp add: ids_bounded_def)
qed

text \<open>
  Only a \<^verbatim>\<open>create_task\<close> call that carries a title hands out an identifier, and it is the
  successor of the counter.
\<close>

lemma filter_known_keys: "set ys \<subseteq> set xs \<Longrightarrow> filter (\<lambda>k. k \<notin> set xs) ys = []"
  by (auto simp: filter_empty_conv)

lemma new_ids_same_keys:
  "set (map fst (tasks s')) \<subseteq> set (map fst (tasks s)) \<Longrightarrow> new_ids s s' = []"
  unfolding new_ids_def by (rule filter_known_keys)

lemma new_ids_call:
  assumes "ids_bounded s"
  shows "new_ids s (snd (call_tool name arguments now s))
           = (if name = ''create_task'' \<and> map_of arguments ''title'' \<noteq> None
              then [task_counter s + 1] else [])"
proof (cases rule: call_tool_state_cases [of name arguments now s])
  case same
  have "new_ids s (snd (call_tool name arguments now s)) = []"
    by (rule new_ids_same_keys) (simp add: same(2))
  with same(1) show ?thesis by simp
next
  case failed_create
  have "new_ids s (snd (call_tool name arguments now s)) = []"
    by (rule new_ids_same_keys) (simp add: failed_create(3))
  with failed_create(2) show ?thesis by simp
next
  case (created ttl)
  have fresh: "task_counter s + 1 \<notin> set (map fst (tasks s))"
  proof
    assume "task_counter s + 1 \<in> set (map fst (tasks s))"
    then have "task_counter s + 1 \<in> fst ` set (tasks s)" by simp
    with assms have "task_counter s + 1 \<le> task_counter s"
      unfolding ids_bounded_def by blast
    then show False by simp
  qed
  have keys: "map fst (tasks (snd (call_tool name arguments now s)))
          = map fst (tasks s) @ [task_counter s + 1]"
    using fresh by (simp add: created(3) update_keys)
  have "new_ids s (snd (call_tool name arguments now s))
          = filter (\<lambda>k. k \<notin> set (map fst (tasks s))) (map fst (tasks s))
            @ filter (\<lambda>k. k \<notin> set (map fst (tasks s))) [task_counter s + 1]"
    unfolding new_ids_def keys by (rule filter_append)
  also have "filter (\<lambda>k. k \<notin> set (map fst (tasks s))) (map fst (tasks s)) = []"
    by (rule filter_known_keys) (rule subset_refl)
  also have "filter (\<lambda>k. k \<notin> set (map fst (tasks s))) [task_counter s + 1]
               = [task_counter s + 1]"
    using fresh by simp
  finally have "new_ids s (snd (call_tool name arguments now s)) = [task_counter s + 1]"
    by simp
  with created(1,2) show ?thesis by simp
next
  case (completed k t)
  from completed(2) have "k \<in> fst ` set (tasks s)" by (rule map_of_Some_key)
  then have "k \<in> set (map fst (tasks s))" by simp
  then have "map fst (AList.update k (t\<lparr>completed := True, completed_at := Some now\<rparr>) (tasks s))
               = map fst (tasks s)"
    by (simp only: update_keys if_True)
  then have "new_ids s (snd (call_tool name arguments now s)) = []"
    by (intro new_ids_same_keys) (simp add: completed(3))
  with completed(1) show ?thesis by simp
next
  case (deleted k t)
  have "map fst (AList.delete k (tasks s)) = removeAll k (map fst (tasks s))"
    by (rule delete_keys)
  then have "set (map fst (AList.delete k (tasks s))) \<subseteq> set (map fst (tasks s))"
    by (simp only: set_removeAll) blast
  then have "new_ids s (snd (call_tool name arguments now s)) = []"
    by (intro new_ids_same_keys) (simp add: deleted(3))
  with deleted(1) show ?thesis by simp
qed

lemma ids_assigned_above:
  "ids_bounded s \<Longrightarrow>
   sorted_wrt (<) (ids_assigned cs s) \<and> (\<forall>i \<in> set (ids_assigned cs s). task_counter s < i)"
proof (induction cs arbitrary: s)
  case Nil
  then show ?case by simp
next
  case (Cons c cs)
  obtain name arguments now where c: "c = Call name arguments now" by (cases c)
  let ?s' = "snd (call_tool name arguments now s)"
  have b': "ids_bounded ?s'" using Cons.prems by (rule ids_bounded_call)
  from Cons.IH [OF b'] have
    sorted: "sorted_wrt (<) (ids_assigned cs ?s')" and
    above: "\<forall>i \<in> set (ids_assigned cs ?s'). task_counter ?s' < i" by simp_all
  show ?case
  proof (cases "name = ''create_task''")
    case True
    with above have "\<forall>i \<in> set (ids_assigned cs ?s'). task_counter s + 1 < i"
      by (simp add: counter_call)
    with sorted show ?thesis
      by (auto simp: c new_ids_call [OF Cons.prems])
  next
    case False
    with above have "\<forall>i \<in> set (ids_assigned cs ?s'). task_counter s < i"
      by (simp add: counter_call)
    with sorted False show ?thesis
      by (simp add: c new_ids_call [OF Cons.prems])
  qed
qed

lemma ids_assigned_consecutive:
  "ids_bounded s \<Longrightarrow> \<forall>c \<in> set cs. is_create c \<longrightarrow> has_title c \<Longrightarrow>
   ids_assigned cs s
     = [task_counter s + 1 .. task_counter s + int (length (filter is_create cs))]"
proof (induction cs arbitrary: s)
  case Nil
  then show ?case by simp
next
  case (Cons c cs)
  obtain name arguments now where c: "c = Call name arguments now" by (cases c)
  let ?s' = "snd (call_tool name arguments now s)"
  let ?n = "int (length (filter is_create cs))"
  have b': "ids_bounded ?s'" using Cons.prems(1) by (rule ids_bounded_call)
  from Cons.prems(2) have rest: "\<forall>c \<in> set cs. is_create c \<longrightarrow> has_title c" by simp
  note IH = Cons.IH [OF b' rest]
  show ?case
  proof (cases "name = ''create_task''")
    case True
    with Cons.prems(2) c have ttl: "map_of arguments ''title'' \<noteq> None" by simp
    have "ids_assigned (c # cs) s = (task_counter s + 1) # ids_assigned cs ?s'"
      using True ttl by (simp add: c new_ids_call [OF Cons.prems(1)])
    also have "ids_assigned cs ?s' = [task_counter s + 1 + 1 .. task_counter s + 1 + ?n]"
      using IH True by (simp add: counter_call)
    also have "(task_counter s + 1) # [task_counter s + 1 + 1 .. task_counter s + 1 + ?n]
                 = [task_counter s + 1 .. task_counter s + 1 + ?n]"
      by (simp add: upto_rec1 [of "task_counter s + 1" "task_counter s + 1 + ?n"])
    finally have ids: "ids_assigned (c # cs) s
                         = [task_counter s + 1 .. task_counter s + 1 + ?n]" .
    have n: "task_counter s + 1 + ?n
               = task_counter s + int (length (filter is_create (c # cs)))"
      using True by (simp add: c)
    show ?thesis unfolding ids n by (rule refl)
  next
    case False
    then show ?thesis
      using IH by (simp add: c new_ids_call [OF Cons.prems(1)] counter_call)
  qed
qed

text \<open>
  What holds of the identifiers for every sequence of tool calls from the empty store: those
  handed out (the keys that appear in \<^verbatim>\<open>tasks\<close>, in the order of the calls) are strictly
  increasing and at least 1, so none is handed out twice, whatever was deleted in between.
  They are 1, 2, ..., n, with n the number of \<^verbatim>\<open>create_task\<close> calls, when every
  \<^verbatim>\<open>create_task\<close> call of the sequence carries its title.
\<close>

lemma ids_assigned_increasing:
  "sorted_wrt (<) (ids_assigned cs init)
   \<and> distinct (ids_assigned cs init)
   \<and> (\<forall>i \<in> set (ids_assigned cs init). 1 \<le> i)
   \<and> ((\<forall>c \<in> set cs. is_create c \<longrightarrow> has_title c) \<longrightarrow>
        ids_assigned cs init = [1 .. int (length (filter is_create cs))])"
proof -
  from ids_assigned_above [OF ids_bounded_init, of cs] have
    sorted: "sorted_wrt (<) (ids_assigned cs init)" and
    above: "\<forall>i \<in> set (ids_assigned cs init). task_counter init < i" by simp_all
  from sorted have "distinct (ids_assigned cs init)"
    by (simp add: strict_sorted_iff)
  moreover from above have "\<forall>i \<in> set (ids_assigned cs init). 1 \<le> i"
    by (auto simp: init_def)
  moreover have "ids_assigned cs init = [1 .. int (length (filter is_create cs))]"
    if "\<forall>c \<in> set cs. is_create c \<longrightarrow> has_title c"
    using ids_assigned_consecutive [OF ids_bounded_init that] by (simp add: init_def)
  ultimately show ?thesis using sorted by blast
qed

text \<open>
  Claim C1 fails when a \<^verbatim>\<open>create_task\<close> call of the sequence lacks its title: the handler has
  incremented \<^verbatim>\<open>task_counter\<close> before \<^verbatim>\<open>arguments["title"]\<close> raises, so the identifier it took
  is lost and the next task skips it. Three \<^verbatim>\<open>create_task\<close> calls from the empty store, the
  second without title, hand out 1 and 3, which are not consecutive.
\<close>

theorem failed_create_task_skips_an_id:
  "ids_assigned [Call ''create_task'' [(''title'', PStr ''a'')] ''t1'',
                 Call ''create_task'' [] ''t2'',
                 Call ''create_task'' [(''title'', PStr ''b'')] ''t3''] init = [1, 3]
   \<and> run [Call ''create_task'' [(''title'', PStr ''a'')] ''t1'',
            Call ''create_task'' [] ''t2'',
            Call ''create_task'' [(''title'', PStr ''b'')] ''t3''] init
     = \<lparr>tasks = [(1, \<lparr>id' = 1, title = PStr ''a'', description = PStr '''',
                       priority = PStr ''medium'', completed = False, created_at = ''t1'',
                       completed_at = None\<rparr>),
                 (3, \<lparr>id' = 3, title = PStr ''b'', description = PStr '''',
                       priority = PStr ''medium'', completed = False, created_at = ''t3'',
                       completed_at = None\<rparr>)],
        task_counter = 3\<rparr>"
  by (simp add: call_tool_def init_def new_ids_def Let_def)

section \<open>Reading resources\<close>

lemma split_slashes_task_uri:
  "split_slashes [] (''task://'' @ rest) = ''task:'' # split_slashes [] rest"
  by simp

lemma split_slashes_single:
  "\<not> py_in ''//'' rest \<Longrightarrow> split_slashes acc rest = [acc @ rest]"
  by (induction acc rest rule: split_slashes.induct) auto

lemma read_resource_all:
  "read_resource ''task://all'' now s
     = (Inr [Dumps (JObj [(''tasks'', tasks_json (tasks s)),
                          (''total_count'', JInt (int (length (tasks s)))),
                          (''timestamp'', JStr now)])], s)"
  by (simp add: read_resource_def)

lemma read_resource_unknown:
  "\<not> startswith uri ''task://'' \<Longrightarrow>
   read_resource uri now s = (Inl (ValueError (''Unknown resource URI: '' @ uri)), s)"
  by (auto simp: read_resource_def startswith_def)

text \<open>
  When the text after \<^verbatim>\<open>task://\<close> holds no further \<^verbatim>\<open>//\<close>, that text is what \<^verbatim>\<open>int\<close> reads:
  the read returns the task stored under the number, raises the not-found \<^verbatim>\<open>ValueError\<close>
  when no task is stored under it, and raises the \<^verbatim>\<open>ValueError\<close> of \<^verbatim>\<open>int\<close> when the text is
  not a number.
\<close>

lemma read_resource_task:
  assumes "rest \<noteq> ''all''" and "\<not> py_in ''//'' rest"
  shows "read_resource (''task://'' @ rest) now s
           = (case int_of_str rest of
                None \<Rightarrow> (Inl (InvalidLiteral rest), s)
              | Some task_id \<Rightarrow>
                  (case map_of (tasks s) task_id of
                     Some t \<Rightarrow> (Inr [Dumps (task_json t)], s)
                   | None \<Rightarrow>
                       (Inl (ValueError (''Task '' @ str_int task_id @ '' not found'')), s)))"
proof -
  have seg: "split_slashes [] (''task://'' @ rest) = [''task:'', rest]"
    using split_slashes_single [OF assms(2), of "[]"]
    by (simp only: split_slashes_task_uri append_Nil)
  have sw: "startswith (''task://'' @ rest) ''task://''"
    by (simp add: startswith_def)
  have ne: "''task://'' @ rest \<noteq> ''task://all''"
    using assms(1) by simp
  show ?thesis
    unfolding read_resource_def seg
    using sw ne by (simp add: py_nth_def split: option.splits)
qed

lemma int_of_str_1: "int_of_str ''1'' = Some 1"
  by code_simp

lemma int_of_str_1_x: "int_of_str ''1//x'' = None"
  by code_simp

text \<open>
  Claim C5 fails on URIs with a second \<^verbatim>\<open>//\<close>. The handler takes element 1 of
  \<^verbatim>\<open>uri.split("//")\<close> as the identifier, so whatever follows a second \<^verbatim>\<open>//\<close> is never looked
  at: the text \<^verbatim>\<open>1//x\<close> after \<^verbatim>\<open>task://\<close> is not a number, and still the read returns task 1
  instead of raising.
\<close>

theorem read_resource_ignores_rest_of_uri:
  "int_of_str ''1//x'' = None
   \<and> read_resource ''task://1//x'' ''2026-01-02T00:00:00''
       \<lparr>tasks = [(1, \<lparr>id' = 1, title = PStr ''a'', description = PStr '''',
                       priority = PStr ''medium'', completed = False,
                       created_at = ''2026-01-01T00:00:00'', completed_at = None\<rparr>)],
        task_counter = 1\<rparr>
     = (Inr [Dumps (JObj [(''id'', JInt 1), (''title'', JStr ''a''),
                          (''description'', JStr ''''), (''priority'', JStr ''medium''),
                          (''completed'', JBool False),
                          (''created_at'', JStr ''2026-01-01T00:00:00'')])],
        \<lparr>tasks = [(1, \<lparr>id' = 1, title = PStr ''a'', description = PStr '''',
                       priority = PStr ''medium'', completed = False,
                       created_at = ''2026-01-01T00:00:00'', completed_at = None\<rparr>)],
         task_counter = 1\<rparr>)"
  by (simp add: int_of_str_1_x read_resource_def startswith_def py_nth_def int_of_str_1
      task_json_def)

end
